theory Spec2Isabelle
  imports Main
begin

section \<open>Data model\<close>

text \<open>
  The entities of the CRM as the sources use them: Django's \<open>User\<close> (admin.py lists
  \<open>is_staff\<close>, \<open>is_superuser\<close>, \<open>is_active\<close>), \<open>Member\<close>, \<open>Interest\<close>,
  \<open>InterestHistory\<close> and \<open>ActivityLog\<close>. Primary keys and timestamps are naturals;
  a nullable column is an \<open>option\<close>. Python strings are \<open>string\<close>, one \<open>char\<close>
  per code point (code points below 256). An uploaded file is known by its name.
\<close>

datatype status = Pending | Approved | Rejected | Inactive

type_synonym upload = string

record account =
  u_pk :: nat
  u_email :: string
  u_first_name :: string
  u_last_name :: string
  u_password :: string
  u_is_staff :: bool
  u_is_superuser :: bool
  u_is_active :: bool
  u_permissions :: "string list"

record interest =
  i_pk :: nat
  i_name :: string
  i_description :: string
  i_created_at :: nat

record member =
  m_user :: nat
  m_status :: status
  m_bio :: string
  m_phone_number :: string
  m_profile_picture :: "upload option"
  m_interests :: "nat list"
  m_date_applied :: nat
  m_date_approved :: "nat option"
  m_approved_by :: "nat option"

datatype history_action = Added | Removed

record history_entry =
  h_pk :: nat
  h_member :: nat
  h_interest :: nat
  h_action :: history_action
  h_changed_by :: "nat option"
  h_timestamp :: nat
  h_notes :: string

record activity_entry =
  a_pk :: nat
  a_user :: "nat option"
  a_action :: string
  a_target_member :: "nat option"
  a_description :: string
  a_ip_address :: "string option"
  a_timestamp :: nat

text \<open>
  The database. \<open>members\<close> is keyed by the primary key of the row, so a key names at
  most one profile; the two logs are lists in insertion order; \<open>pk_seq\<close> is the key
  sequence that inserts draw from.
\<close>

record state =
  users :: "account list"
  members :: "nat \<rightharpoonup> member"
  catalog :: "interest list"
  interest_history :: "history_entry list"
  activity_log :: "activity_entry list"
  pk_seq :: nat

text \<open>The error taxonomy of the lifecycle operations.\<close>

datatype error = ValidationError | DuplicateEmail | InvalidTransition | Unauthorized | NotFound

section \<open>Membership lifecycle\<close>

text \<open>
  Every operation takes the state and returns its result with the state it leaves:
  a raised error is \<open>Inl\<close>, paired with the state at the moment of the raise.
\<close>

definition approval_entry :: "state \<Rightarrow> account \<Rightarrow> nat \<Rightarrow> nat \<Rightarrow> activity_entry" where
  "approval_entry st acting now pk =
     \<lparr>a_pk = pk_seq st, a_user = Some (u_pk acting), a_action = ''approval'',
      a_target_member = Some pk, a_description = [], a_ip_address = None,
      a_timestamp = now\<rparr>"

text \<open>
  Modelled from the spec: \<open>Member.approve_membership\<close> of models.py, which is not among
  the sources (tests.py and admin.py call it as \<open>member.approve_membership(user)\<close>).
  The spec's \<open>approve(profile, actingAccount)\<close>: the acting account must be staff, else
  \<open>Unauthorized\<close>; the profile must be pending, else \<open>InvalidTransition\<close>; then the
  status becomes approved, \<open>date_approved\<close> is the current time, \<open>approved_by\<close> the
  acting account, and one ActivityLogEntry with action "approval" is appended. The
  privilege check comes first: the spec has a non-staff account fail with
  \<open>Unauthorized\<close> on any profile. \<open>self\<close> is the loaded object, \<open>pk\<close> its key.
\<close>

definition approve_membership ::
  "account \<Rightarrow> nat \<Rightarrow> nat \<Rightarrow> member \<Rightarrow> state \<Rightarrow> (error + unit) \<times> state" where
  "approve_membership acting now pk self st =
     (if \<not> u_is_staff acting then (Inl Unauthorized, st)
      else if m_status self \<noteq> Pending then (Inl InvalidTransition, st)
      else (Inr (),
            st\<lparr>members := (members st)(pk \<mapsto>
                   self\<lparr>m_status := Approved, m_date_approved := Some now,
                        m_approved_by := Some (u_pk acting)\<rparr>),
               activity_log := activity_log st @ [approval_entry st acting now pk],
               pk_seq := Suc (pk_seq st)\<rparr>))"

text \<open>
  Modelled from the spec: \<open>approveMember(id, actingAccountId)\<close>, the operation on a
  stored profile: \<open>NotFound\<close> when the key names no profile, else the row is loaded
  and approved.
\<close>

definition approveMember :: "account \<Rightarrow> nat \<Rightarrow> nat \<Rightarrow> state \<Rightarrow> (error + unit) \<times> state" where
  "approveMember acting now pk st =
     (case members st pk of
        None \<Rightarrow> (Inl NotFound, st)
      | Some self \<Rightarrow> approve_membership acting now pk self st)"

definition rejection_entry :: "state \<Rightarrow> account \<Rightarrow> nat \<Rightarrow> nat \<Rightarrow> activity_entry" where
  "rejection_entry st acting now pk =
     \<lparr>a_pk = pk_seq st, a_user = Some (u_pk acting), a_action = ''rejection'',
      a_target_member = Some pk, a_description = [], a_ip_address = None,
      a_timestamp = now\<rparr>"

text \<open>
  Modelled from the spec: \<open>Member.reject_membership\<close> of models.py, which is not among
  the sources. tests.py calls it as \<open>member.reject_membership()\<close>, with no account,
  on a pending profile and expects the status \<open>rejected\<close>: the method knows no acting
  account and checks none. As the spec's reject, it requires a pending profile
  (\<open>InvalidTransition\<close> otherwise) and sets the status to rejected.
\<close>

definition reject_membership :: "nat \<Rightarrow> member \<Rightarrow> state \<Rightarrow> (error + unit) \<times> state" where
  "reject_membership pk self st =
     (if m_status self \<noteq> Pending then (Inl InvalidTransition, st)
      else (Inr (), st\<lparr>members := (members st)(pk \<mapsto> self\<lparr>m_status := Rejected\<rparr>)\<rparr>))"

text \<open>
  Modelled from the spec: \<open>rejectMember(id, actingAccountId)\<close>, the spec's operation
  on a stored profile: \<open>NotFound\<close> when the key names no profile; the acting account
  must be staff, else \<open>Unauthorized\<close>; then the profile is rejected and one
  ActivityLogEntry with action "rejection" is appended.
\<close>

definition rejectMember :: "account \<Rightarrow> nat \<Rightarrow> nat \<Rightarrow> state \<Rightarrow> (error + unit) \<times> state" where
  "rejectMember acting now pk st =
     (case members st pk of
        None \<Rightarrow> (Inl NotFound, st)
      | Some self \<Rightarrow>
          if \<not> u_is_staff acting then (Inl Unauthorized, st)
          else
            (case reject_membership pk self st of
               (Inl e, st') \<Rightarrow> (Inl e, st')
             | (Inr _, st') \<Rightarrow>
                 (Inr (),
                  st'\<lparr>activity_log := activity_log st' @ [rejection_entry st acting now pk],
                      pk_seq := Suc (pk_seq st')\<rparr>)))"

section \<open>Bulk actions of the member admin (admin.py)\<close>

text \<open>
  An admin action receives the queryset of the rows selected in the change list: the
  list of their keys, read against the table. \<open>queryset.filter(status=s)\<close> keeps the
  selected rows whose status is \<open>s\<close> and loads them as objects, each row once.
\<close>

definition filter_status :: "status \<Rightarrow> nat list \<Rightarrow> state \<Rightarrow> (nat \<times> member) list" where
  "filter_status s queryset st =
     List.map_filter
       (\<lambda>pk. case members st pk of
               None \<Rightarrow> None
             | Some m \<Rightarrow> if m_status m = s then Some (pk, m) else None)
       (remdups queryset)"

text \<open>
  \<open>MemberAdmin.approve_members\<close>: the loop over the loaded pending rows. An exception
  of \<open>approve_membership\<close> is not caught, so it ends the action where it is raised.
\<close>

fun approve_loop ::
  "account \<Rightarrow> nat \<Rightarrow> (nat \<times> member) list \<Rightarrow> nat \<Rightarrow> state \<Rightarrow> (error + nat) \<times> state" where
  "approve_loop user now [] updated st = (Inr updated, st)"
| "approve_loop user now ((pk, member) # rest) updated st =
     (case approve_membership user now pk member st of
        (Inl e, st') \<Rightarrow> (Inl e, st')
      | (Inr _, st') \<Rightarrow> approve_loop user now rest (updated + 1) st')"

text \<open>
  The result is \<open>updated\<close>, the number that \<open>message_user\<close> reports
  ("\<open>updated\<close> member(s) were successfully approved.").
\<close>

definition approve_members :: "account \<Rightarrow> nat \<Rightarrow> nat list \<Rightarrow> state \<Rightarrow> (error + nat) \<times> state" where
  "approve_members user now queryset st =
     approve_loop user now (filter_status Pending queryset st) 0 st"

text \<open>
  \<open>MemberAdmin.reject_members\<close>:
  \<open>updated = queryset.filter(status='pending').update(status='rejected')\<close>, one UPDATE
  statement on the matching rows that returns their number. It does not call
  \<open>reject_membership\<close> and touches no other table.
\<close>

definition reject_members :: "account \<Rightarrow> nat list \<Rightarrow> state \<Rightarrow> nat \<times> state" where
  "reject_members user queryset st =
     (let rows = filter_status Pending queryset st
      in (length rows,
          st\<lparr>members := (\<lambda>pk. if pk \<in> fst ` set rows
                              then map_option (\<lambda>m. m\<lparr>m_status := Rejected\<rparr>) (members st pk)
                              else members st pk)\<rparr>))"

section \<open>Interest mutation\<close>

definition added_entry :: "state \<Rightarrow> nat \<Rightarrow> nat \<Rightarrow> account option \<Rightarrow> nat \<Rightarrow> history_entry" where
  "added_entry st pk iid acting now =
     \<lparr>h_pk = pk_seq st, h_member = pk, h_interest = iid, h_action = Added,
      h_changed_by = map_option u_pk acting, h_timestamp = now, h_notes = []\<rparr>"

text \<open>
  Modelled from the spec: \<open>addInterest(profile, interest, actingAccount?)\<close>; the code
  that adds an interest (models.py, views.py) is not among the sources. The interest
  must be in the catalog (\<open>NotFound\<close> otherwise, as for a missing profile); when it
  is already associated the call changes nothing and logs nothing; otherwise it is
  added to the profile's interests and one InterestHistoryEntry with action "added"
  is appended, \<open>changed_by\<close> the acting account or null.
\<close>

definition addInterest ::
  "nat \<Rightarrow> nat \<Rightarrow> account option \<Rightarrow> nat \<Rightarrow> state \<Rightarrow> (error + unit) \<times> state" where
  "addInterest pk iid acting now st =
     (case members st pk of
        None \<Rightarrow> (Inl NotFound, st)
      | Some m \<Rightarrow>
          if iid \<notin> i_pk ` set (catalog st) then (Inl NotFound, st)
          else if iid \<in> set (m_interests m) then (Inr (), st)
          else (Inr (),
                st\<lparr>members := (members st)(pk \<mapsto> m\<lparr>m_interests := m_interests m @ [iid]\<rparr>),
                   interest_history :=
                     interest_history st @ [added_entry st pk iid acting now],
                   pk_seq := Suc (pk_seq st)\<rparr>))"

section \<open>Registration form (forms.py)\<close>

text \<open>
  The submitted data of \<open>MemberRegistrationForm\<close>: a text input that is absent from
  the request is \<open>None\<close>; \<open>d_interests\<close> holds the keys of the ticked check boxes;
  \<open>d_terms_accepted\<close> is the value of the check box.
\<close>

record registration_data =
  d_first_name :: "string option"
  d_last_name :: "string option"
  d_email :: "string option"
  d_password :: "string option"
  d_password_confirm :: "string option"
  d_bio :: "string option"
  d_phone_number :: "string option"
  d_interests :: "nat list"
  d_profile_picture :: "upload option"
  d_terms_accepted :: bool

text \<open>
  Two checks of the framework are parameters: whether \<open>EmailField\<close>'s validators
  accept a stripped, non-empty address, and whether \<open>ImageField\<close> accepts an upload.
\<close>

record framework =
  email_valid :: "string \<Rightarrow> bool"
  image_valid :: "upload \<Rightarrow> bool"

datatype form_field =
  first_name | last_name | email | password | password_confirm | bio | phone_number
  | interests | profile_picture | terms_accepted

text \<open>The Python values that \<open>cleaned_data\<close> holds.\<close>

datatype pyval = Str string | Bool bool | Rows "interest list" | File upload | PyNone

text \<open>
  The validation errors: \<open>Required\<close> ("This field is required."), the fields' own
  \<open>Invalid\<close>, \<open>MaxLength\<close>, \<open>NullCharacters\<close>, \<open>InvalidChoice\<close>, \<open>InvalidImage\<close>;
  \<open>EmailExists\<close> ("An account with this email already exists."), \<open>PasswordMismatch\<close>
  ("Passwords do not match."), \<open>NoInterestSelected\<close> ("Please select at least one
  interest."). \<open>KeyError\<close> is the exception of \<open>cleaned_data[name]\<close> on a missing key.
\<close>

datatype form_error =
  Required | Invalid | MaxLength | NullCharacters | InvalidChoice | InvalidImage
  | EmailExists | PasswordMismatch | NoInterestSelected | KeyError

text \<open>Python's \<open>str.strip()\<close>: the white space of \<open>str.isspace\<close> below code point 256.\<close>

definition is_space :: "char \<Rightarrow> bool" where
  "is_space c = ((of_char c :: nat) \<in> {9, 10, 11, 12, 13, 28, 29, 30, 31, 32, 133, 160})"

definition strip :: "string \<Rightarrow> string" where
  "strip s = rev (dropWhile is_space (rev (dropWhile is_space s)))"

text \<open>
  \<open>forms.CharField(...).clean\<close> with the defaults the form leaves in place
  (\<open>strip=True\<close>, \<open>empty_value=''\<close>): \<open>to_python\<close> strips the value, a missing one
  being empty; an empty value fails a required field and is the cleaned value of an
  optional one; otherwise the \<open>max_length\<close> validator and the null-character
  validator run.
\<close>

definition CharField_to_python :: "string option \<Rightarrow> string" where
  "CharField_to_python raw = (case raw of None \<Rightarrow> [] | Some s \<Rightarrow> strip s)"

definition CharField_clean :: "bool \<Rightarrow> nat option \<Rightarrow> string option \<Rightarrow> form_error list + pyval" where
  "CharField_clean required max_length raw =
     (let v = CharField_to_python raw in
      if v = [] then (if required then Inl [Required] else Inr (Str []))
      else
        let errs =
              (case max_length of
                 None \<Rightarrow> []
               | Some n \<Rightarrow> if n < length v then [MaxLength] else [])
              @ (if CHR 0x00 \<in> set v then [NullCharacters] else [])
        in if errs = [] then Inr (Str v) else Inl errs)"

text \<open>\<open>forms.EmailField\<close>: a required \<open>CharField\<close> whose first validator is the email validator.\<close>

definition EmailField_clean :: "framework \<Rightarrow> string option \<Rightarrow> form_error list + pyval" where
  "EmailField_clean fw raw =
     (let v = CharField_to_python raw in
      if v = [] then Inl [Required]
      else
        let errs = (if email_valid fw v then [] else [Invalid])
                   @ (if CHR 0x00 \<in> set v then [NullCharacters] else [])
        in if errs = [] then Inr (Str v) else Inl errs)"

text \<open>\<open>forms.BooleanField\<close>: a required check box must be ticked.\<close>

definition BooleanField_clean :: "bool \<Rightarrow> bool \<Rightarrow> form_error list + pyval" where
  "BooleanField_clean required raw =
     (if \<not> raw \<and> required then Inl [Required] else Inr (Bool raw))"

text \<open>
  \<open>forms.ModelMultipleChoiceField\<close> over \<open>Interest.objects.all()\<close>: an empty selection
  fails a required field; a key that names no interest is an invalid choice; the
  cleaned value is the queryset of the selected interests.
\<close>

definition ModelMultipleChoiceField_clean ::
  "interest list \<Rightarrow> bool \<Rightarrow> nat list \<Rightarrow> form_error list + pyval" where
  "ModelMultipleChoiceField_clean queryset required raw =
     (if raw = [] then (if required then Inl [Required] else Inr (Rows []))
      else
        let qs = filter (\<lambda>i. i_pk i \<in> set raw) queryset
        in if list_ex (\<lambda>pk. pk \<notin> i_pk ` set qs) raw then Inl [InvalidChoice]
           else Inr (Rows qs))"

text \<open>\<open>forms.ImageField(required=False)\<close>.\<close>

definition ImageField_clean :: "framework \<Rightarrow> bool \<Rightarrow> upload option \<Rightarrow> form_error list + pyval" where
  "ImageField_clean fw required raw =
     (case raw of
        None \<Rightarrow> if required then Inl [Required] else Inr PyNone
      | Some f \<Rightarrow> if image_valid fw f then Inr (File f) else Inl [InvalidImage])"

text \<open>The fields as the class declares them (lines 15 to 100).\<close>

fun field_clean ::
  "framework \<Rightarrow> state \<Rightarrow> registration_data \<Rightarrow> form_field \<Rightarrow> form_error list + pyval" where
  "field_clean fw st d first_name = CharField_clean True (Some 30) (d_first_name d)"
| "field_clean fw st d last_name = CharField_clean True (Some 30) (d_last_name d)"
| "field_clean fw st d email = EmailField_clean fw (d_email d)"
| "field_clean fw st d password = CharField_clean True None (d_password d)"
| "field_clean fw st d password_confirm = CharField_clean True None (d_password_confirm d)"
| "field_clean fw st d bio = CharField_clean True None (d_bio d)"
| "field_clean fw st d phone_number = CharField_clean False (Some 20) (d_phone_number d)"
| "field_clean fw st d interests =
     ModelMultipleChoiceField_clean (catalog st) True (d_interests d)"
| "field_clean fw st d profile_picture = ImageField_clean fw False (d_profile_picture d)"
| "field_clean fw st d terms_accepted = BooleanField_clean True (d_terms_accepted d)"

definition declared_fields :: "form_field list" where
  "declared_fields =
     [first_name, last_name, email, password, password_confirm, bio, phone_number,
      interests, profile_picture, terms_accepted]"

text \<open>\<open>clean_email\<close>: the address must not be the email of a stored user.\<close>

definition clean_email :: "state \<Rightarrow> (form_field \<rightharpoonup> pyval) \<Rightarrow> form_error list + pyval" where
  "clean_email st cleaned_data =
     (case cleaned_data email of
        None \<Rightarrow> Inl [KeyError]
      | Some e \<Rightarrow>
          if list_ex (\<lambda>u. Str (u_email u) = e) (users st) then Inl [EmailExists]
          else Inr e)"

text \<open>\<open>clean_password\<close>: "Allow any password (no restrictions)".\<close>

definition clean_password :: "(form_field \<rightharpoonup> pyval) \<Rightarrow> form_error list + pyval" where
  "clean_password cleaned_data =
     (case cleaned_data password of
        None \<Rightarrow> Inl [KeyError]
      | Some p \<Rightarrow> Inr p)"

text \<open>The \<open>clean_<name>\<close> method of a field, when the form has one.\<close>

fun clean_hook :: "state \<Rightarrow> form_field \<Rightarrow> ((form_field \<rightharpoonup> pyval) \<Rightarrow> form_error list + pyval) option" where
  "clean_hook st email = Some (clean_email st)"
| "clean_hook st password = Some clean_password"
| "clean_hook st _ = None"

text \<open>
  One round of \<open>Form._clean_fields\<close>: the field cleans the submitted value and stores
  it; then the field's \<open>clean_<name>\<close> method, if any, runs on the form and its
  result is stored. A validation error is recorded under the field and the field is
  removed from \<open>cleaned_data\<close>.
\<close>

definition clean_field ::
  "framework \<Rightarrow> state \<Rightarrow> registration_data \<Rightarrow> form_field
     \<Rightarrow> (form_field \<rightharpoonup> pyval) \<times> (form_field option \<times> form_error) list
     \<Rightarrow> (form_field \<rightharpoonup> pyval) \<times> (form_field option \<times> form_error) list" where
  "clean_field fw st d name form =
     (case form of (cleaned_data, errors) \<Rightarrow>
        (case field_clean fw st d name of
           Inl es \<Rightarrow> (cleaned_data(name := None), errors @ map (Pair (Some name)) es)
         | Inr v \<Rightarrow>
             (case clean_hook st name of
                None \<Rightarrow> (cleaned_data(name \<mapsto> v), errors)
              | Some method \<Rightarrow>
                  (case method (cleaned_data(name \<mapsto> v)) of
                     Inl es \<Rightarrow> (cleaned_data(name := None), errors @ map (Pair (Some name)) es)
                   | Inr v' \<Rightarrow> (cleaned_data(name \<mapsto> v'), errors)))))"

definition clean_fields ::
  "framework \<Rightarrow> state \<Rightarrow> registration_data
     \<Rightarrow> (form_field \<rightharpoonup> pyval) \<times> (form_field option \<times> form_error) list" where
  "clean_fields fw st d = fold (clean_field fw st d) declared_fields (Map.empty, [])"

text \<open>Python truth of \<open>cleaned_data.get(name)\<close>: a missing key gives \<open>None\<close>.\<close>

fun truthy :: "pyval option \<Rightarrow> bool" where
  "truthy None = False"
| "truthy (Some (Str s)) = (s \<noteq> [])"
| "truthy (Some (Bool b)) = b"
| "truthy (Some (Rows r)) = (r \<noteq> [])"
| "truthy (Some (File f)) = (f \<noteq> [])"
| "truthy (Some PyNone) = False"

text \<open>\<open>MemberRegistrationForm.clean\<close> (lines 115 to 130).\<close>

definition clean :: "(form_field \<rightharpoonup> pyval) \<Rightarrow> form_error + (form_field \<rightharpoonup> pyval)" where
  "clean cleaned_data =
     (if truthy (cleaned_data password) \<and> truthy (cleaned_data password_confirm)
         \<and> cleaned_data password \<noteq> cleaned_data password_confirm
      then Inl PasswordMismatch
      else if \<not> truthy (cleaned_data interests) then Inl NoInterestSelected
      else Inr cleaned_data)"

text \<open>
  \<open>Form.full_clean\<close>: the fields in order, then \<open>clean\<close>, whose error is recorded
  under no field. The form is valid when no error was recorded.
\<close>

definition full_clean ::
  "framework \<Rightarrow> state \<Rightarrow> registration_data
     \<Rightarrow> (form_field \<rightharpoonup> pyval) \<times> (form_field option \<times> form_error) list" where
  "full_clean fw st d =
     (case clean_fields fw st d of (cleaned_data, errors) \<Rightarrow>
        (case clean cleaned_data of
           Inl e \<Rightarrow> (cleaned_data, errors @ [(None, e)])
         | Inr cleaned_data' \<Rightarrow> (cleaned_data', errors)))"

definition is_valid :: "framework \<Rightarrow> state \<Rightarrow> registration_data \<Rightarrow> bool" where
  "is_valid fw st d = (snd (full_clean fw st d) = [])"

section \<open>Registration workflow\<close>

definition str_of :: "pyval option \<Rightarrow> string" where
  "str_of v = (case v of Some (Str s) \<Rightarrow> s | _ \<Rightarrow> [])"

definition rows_of :: "pyval option \<Rightarrow> interest list" where
  "rows_of v = (case v of Some (Rows r) \<Rightarrow> r | _ \<Rightarrow> [])"

definition file_of :: "pyval option \<Rightarrow> upload option" where
  "file_of v = (case v of Some (File f) \<Rightarrow> Some f | _ \<Rightarrow> None)"

text \<open>
  Modelled from the spec: the \<open>register\<close> view of views.py, which is not among the
  sources (urls.py routes \<open>register/\<close> to it). The spec's \<open>registerMember\<close>: on an
  invalid form nothing is created and the result is \<open>DuplicateEmail\<close> when
  \<open>clean_email\<close> found the address in the directory, \<open>ValidationError\<close> otherwise; on
  a valid form it creates the account, then the profile with status pending and
  \<open>date_applied\<close> the current time, then calls \<open>addInterest\<close> once per selected
  interest with no acting account, and returns the profile's key. The form and its
  validation are those of forms.py.
\<close>

definition registerMember ::
  "framework \<Rightarrow> nat \<Rightarrow> registration_data \<Rightarrow> state \<Rightarrow> (error + nat) \<times> state" where
  "registerMember fw now d st =
     (case full_clean fw st d of
        (cleaned_data, e # es) \<Rightarrow>
          (Inl (if (Some email, EmailExists) \<in> set (e # es) then DuplicateEmail
                else ValidationError), st)
      | (cleaned_data, []) \<Rightarrow>
          (let user = \<lparr>u_pk = pk_seq st, u_email = str_of (cleaned_data email),
                        u_first_name = str_of (cleaned_data first_name),
                        u_last_name = str_of (cleaned_data last_name),
                        u_password = str_of (cleaned_data password),
                        u_is_staff = False, u_is_superuser = False, u_is_active = True,
                        u_permissions = []\<rparr>;
               profile = \<lparr>m_user = pk_seq st, m_status = Pending,
                           m_bio = str_of (cleaned_data bio),
                           m_phone_number = str_of (cleaned_data phone_number),
                           m_profile_picture = file_of (cleaned_data profile_picture),
                           m_interests = [], m_date_applied = now,
                           m_date_approved = None, m_approved_by = None\<rparr>;
               pk = Suc (pk_seq st);
               st1 = st\<lparr>users := users st @ [user],
                         members := (members st)(pk \<mapsto> profile),
                         pk_seq := Suc (Suc (pk_seq st))\<rparr>
           in (Inr pk,
               fold (\<lambda>i s. snd (addInterest pk (i_pk i) None now s))
                    (rows_of (cleaned_data interests)) st1)))"

section \<open>Admin permissions of the two logs (admin.py)\<close>

datatype admin_error = LoginRequired | PermissionDenied | DoesNotExist

text \<open>
  Django's \<open>User.has_perm\<close>: an active superuser has every permission, another
  active user those granted. \<open>AdminSite.has_permission\<close>: active staff only.
\<close>

definition has_perm :: "account \<Rightarrow> string \<Rightarrow> bool" where
  "has_perm user perm =
     (u_is_active user \<and> (u_is_superuser user \<or> perm \<in> set (u_permissions user)))"

definition AdminSite_has_permission :: "account \<Rightarrow> bool" where
  "AdminSite_has_permission user = (u_is_active user \<and> u_is_staff user)"


text \<open>
  \<open>InterestHistoryAdmin\<close> and \<open>ActivityLogAdmin\<close> override \<open>has_add_permission\<close> and
  \<open>has_change_permission\<close> to return \<open>False\<close> (lines 187 to 191 and 205 to 209).
  Neither overrides \<open>has_delete_permission\<close>, so \<open>ModelAdmin\<close>'s applies: the user
  must hold the model's delete permission. \<open>app_label\<close> is the label of the app.
\<close>

definition InterestHistoryAdmin_has_add_permission :: "account \<Rightarrow> bool" where
  "InterestHistoryAdmin_has_add_permission user = False"

definition InterestHistoryAdmin_has_change_permission :: "account \<Rightarrow> history_entry option \<Rightarrow> bool" where
  "InterestHistoryAdmin_has_change_permission user obj = False"

definition ActivityLogAdmin_has_add_permission :: "account \<Rightarrow> bool" where
  "ActivityLogAdmin_has_add_permission user = False"

definition ActivityLogAdmin_has_change_permission :: "account \<Rightarrow> activity_entry option \<Rightarrow> bool" where
  "ActivityLogAdmin_has_change_permission user obj = False"

definition ModelAdmin_has_delete_permission :: "string \<Rightarrow> string \<Rightarrow> account \<Rightarrow> bool" where
  "ModelAdmin_has_delete_permission app_label model_name user =
     has_perm user (app_label @ ''.delete_'' @ model_name)"

text \<open>
  The admin's change view, submitted, for an entry of the interest history: the site
  admits staff, then the model admin asks \<open>has_change_permission\<close>.
\<close>

definition InterestHistoryAdmin_change_view ::
  "account \<Rightarrow> nat \<Rightarrow> history_entry \<Rightarrow> state \<Rightarrow> (admin_error + unit) \<times> state" where
  "InterestHistoryAdmin_change_view user object_id new st =
     (if \<not> AdminSite_has_permission user then (Inl LoginRequired, st)
      else
        let obj = find (\<lambda>h. h_pk h = object_id) (interest_history st) in
        if \<not> InterestHistoryAdmin_has_change_permission user obj then (Inl PermissionDenied, st)
        else if obj = None then (Inl DoesNotExist, st)
        else (Inr (),
              st\<lparr>interest_history :=
                   map (\<lambda>h. if h_pk h = object_id then new\<lparr>h_pk := object_id\<rparr> else h)
                       (interest_history st)\<rparr>))"

text \<open>
  The admin's delete view, confirmed: the site admits staff, the model admin asks
  \<open>has_delete_permission\<close>, and the object is deleted.
\<close>

definition InterestHistoryAdmin_delete_view ::
  "string \<Rightarrow> account \<Rightarrow> nat \<Rightarrow> state \<Rightarrow> (admin_error + unit) \<times> state" where
  "InterestHistoryAdmin_delete_view app_label user object_id st =
     (if \<not> AdminSite_has_permission user then (Inl LoginRequired, st)
      else
        let obj = find (\<lambda>h. h_pk h = object_id) (interest_history st) in
        if \<not> ModelAdmin_has_delete_permission app_label ''interesthistory'' user
        then (Inl PermissionDenied, st)
        else if obj = None then (Inl DoesNotExist, st)
        else (Inr (),
              st\<lparr>interest_history :=
                   filter (\<lambda>h. h_pk h \<noteq> object_id) (interest_history st)\<rparr>))"

definition ActivityLogAdmin_delete_view ::
  "string \<Rightarrow> account \<Rightarrow> nat \<Rightarrow> state \<Rightarrow> (admin_error + unit) \<times> state" where
  "ActivityLogAdmin_delete_view app_label user object_id st =
     (if \<not> AdminSite_has_permission user then (Inl LoginRequired, st)
      else
        let obj = find (\<lambda>a. a_pk a = object_id) (activity_log st) in
        if \<not> ModelAdmin_has_delete_permission app_label ''activitylog'' user
        then (Inl PermissionDenied, st)
        else if obj = None then (Inl DoesNotExist, st)
        else (Inr (),
              st\<lparr>activity_log := filter (\<lambda>a. a_pk a \<noteq> object_id) (activity_log st)\<rparr>))"

text \<open>Whether a key names a stored profile that is pending.\<close>

definition is_pending :: "state \<Rightarrow> nat \<Rightarrow> bool" where
  "is_pending st pk = (case members st pk of None \<Rightarrow> False | Some m \<Rightarrow> m_status m = Pending)"

text \<open>What a successful approve makes of a profile.\<close>

definition approved_by_at :: "account \<Rightarrow> nat \<Rightarrow> member \<Rightarrow> member" where
  "approved_by_at acting now m =
     m\<lparr>m_status := Approved, m_date_approved := Some now, m_approved_by := Some (u_pk acting)\<rparr>"

section \<open>The outcome of a field\<close>

text \<open>
  What one round of \<open>_clean_fields\<close> makes of a field does not depend on the other
  fields: the field's own cleaning, then its \<open>clean_<name>\<close> method on the value
  just stored.
\<close>

definition field_outcome ::
  "framework \<Rightarrow> state \<Rightarrow> registration_data \<Rightarrow> form_field \<Rightarrow> form_error list + pyval" where
  "field_outcome fw st d name =
     (case field_clean fw st d name of
        Inl es \<Rightarrow> Inl es
      | Inr v \<Rightarrow>
          (case clean_hook st name of
             None \<Rightarrow> Inr v
           | Some method \<Rightarrow> method [name \<mapsto> v]))"

definition outcome_errors ::
  "framework \<Rightarrow> state \<Rightarrow> registration_data \<Rightarrow> form_field
     \<Rightarrow> (form_field option \<times> form_error) list" where
  "outcome_errors fw st d name =
     (case field_outcome fw st d name of
        Inl es \<Rightarrow> map (Pair (Some name)) es
      | Inr v \<Rightarrow> [])"

definition outcome_value ::
  "framework \<Rightarrow> state \<Rightarrow> registration_data \<Rightarrow> form_field \<Rightarrow> pyval option" where
  "outcome_value fw st d name =
     (case field_outcome fw st d name of Inl es \<Rightarrow> None | Inr v \<Rightarrow> Some v)"

section \<open>Example data\<close>

definition example_account :: "nat \<Rightarrow> bool \<Rightarrow> account" where
  "example_account k staff =
     \<lparr>u_pk = k, u_email = ''admin@example.com'', u_first_name = [], u_last_name = [],
      u_password = ''adminpass123'', u_is_staff = staff, u_is_superuser = False,
      u_is_active = True, u_permissions = []\<rparr>"

definition example_member :: "status \<Rightarrow> member" where
  "example_member s =
     \<lparr>m_user = 1, m_status = s, m_bio = ''Test bio for user'', m_phone_number = [],
      m_profile_picture = None, m_interests = [], m_date_applied = 0,
      m_date_approved = None, m_approved_by = None\<rparr>"

text \<open>Three profiles: 1 and 3 pending, 2 approved.\<close>

definition example_db :: state where
  "example_db =
     \<lparr>users = [], 
      members = [1 \<mapsto> example_member Pending, 2 \<mapsto> example_member Approved,
                 3 \<mapsto> example_member Pending],
      catalog = [], interest_history = [], activity_log = [], pk_seq = 10\<rparr>"

text \<open>
  The data of tests.py: a directory that holds \<open>existing@example.com\<close>, the interests
  \<open>creating\<close> and \<open>sharing\<close>, and the valid form of \<open>test_valid_form\<close>.
\<close>

definition example_fw :: framework where
  "example_fw = \<lparr>email_valid = (\<lambda>s. CHR ''@'' \<in> set s), image_valid = (\<lambda>f. True)\<rparr>"

definition example_site :: state where
  "example_site =
     \<lparr>users = [(example_account 1 False)\<lparr>u_email := ''existing@example.com''\<rparr>],
      members = Map.empty,
      catalog = [\<lparr>i_pk = 1, i_name = ''creating'', i_description = [], i_created_at = 0\<rparr>,
                 \<lparr>i_pk = 2, i_name = ''sharing'', i_description = [], i_created_at = 0\<rparr>],
      interest_history = [], activity_log = [], pk_seq = 2\<rparr>"

definition example_form :: registration_data where
  "example_form =
     \<lparr>d_first_name = Some ''John'', d_last_name = Some ''Doe'',
      d_email = Some ''john@example.com'', d_password = Some ''strongpassword123'',
      d_password_confirm = Some ''strongpassword123'', d_bio = Some ''Test bio content'',
      d_phone_number = None, d_interests = [1, 2], d_profile_picture = None,
      d_terms_accepted = True\<rparr>"


text \<open>A site with one profile, and a site whose two logs hold one entry each.\<close>

definition example_site_member :: state where
  "example_site_member = example_site\<lparr>members := [1 \<mapsto> example_member Pending]\<rparr>"

definition example_superuser :: account where
  "example_superuser = (example_account 9 True)\<lparr>u_is_superuser := True\<rparr>"

definition example_logs :: state where
  "example_logs =
     example_site
       \<lparr>interest_history :=
          [\<lparr>h_pk = 4, h_member = 1, h_interest = 1, h_action = Added, h_changed_by = None,
            h_timestamp = 5, h_notes = []\<rparr>],
        activity_log :=
          [\<lparr>a_pk = 7, a_user = Some 9, a_action = ''approval'', a_target_member = Some 1,
            a_description = [], a_ip_address = None, a_timestamp = 6\<rparr>]\<rparr>"

section \<open>Properties\<close>

text \<open>
  C1. Approving a pending profile as a staff account succeeds: the stored profile is
  approved, its \<open>date_approved\<close> is set (to the time of the call), its \<open>approved_by\<close>
  is the acting account, and the activity log grows by exactly one entry, the approval
  of this profile. A second approve on the profile fails with \<open>InvalidTransition\<close>
  and leaves the state, so also the activity log, as it was.
\<close>

theorem approve_pending_then_again:
  assumes "members st pk = Some m" and "m_status m = Pending" and "u_is_staff acting"
  shows "fst (approveMember acting now pk st) = Inr ()
    \<and> (\<exists>m'. members (snd (approveMember acting now pk st)) pk = Some m'
          \<and> m_status m' = Approved \<and> m_date_approved m' = Some now
          \<and> m_date_approved m' \<noteq> None \<and> m_approved_by m' = Some (u_pk acting))
    \<and> activity_log (snd (approveMember acting now pk st))
        = activity_log st @ [approval_entry st acting now pk]
    \<and> length (activity_log (snd (approveMember acting now pk st)))
        = Suc (length (activity_log st))
    \<and> approveMember acting now2 pk (snd (approveMember acting now pk st))
        = (Inl InvalidTransition, snd (approveMember acting now pk st))"
  using assms by (simp add: approveMember_def approve_membership_def)

theorem approve_pending_then_again_witness:
  "members example_db 1 = Some (example_member Pending)
   \<and> m_status (example_member Pending) = Pending
   \<and> u_is_staff (example_account 7 True)
   \<and> fst (approveMember (example_account 7 True) 5 1 example_db) = Inr ()
   \<and> length (activity_log (snd (approveMember (example_account 7 True) 5 1 example_db))) = 1
   \<and> fst (approveMember (example_account 7 True) 6 1
             (snd (approveMember (example_account 7 True) 5 1 example_db)))
       = Inl InvalidTransition"
  using approve_pending_then_again
          [of example_db 1 "example_member Pending" "example_account 7 True" 5 6]
  by (simp add: example_db_def example_member_def example_account_def)

subsection \<open>The selected pending rows\<close>

lemma filter_status_keys:
  "map fst (filter_status Pending queryset st) = filter (is_pending st) (remdups queryset)"
proof -
  have "map fst (List.map_filter
            (\<lambda>pk. case members st pk of None \<Rightarrow> None
                  | Some m \<Rightarrow> if m_status m = Pending then Some (pk, m) else None) ks)
        = filter (is_pending st) ks" for ks
    by (induction ks) (auto simp: List.map_filter_def is_pending_def split: option.splits)
  then show ?thesis by (simp add: filter_status_def)
qed

lemma filter_status_distinct: "distinct (map fst (filter_status Pending queryset st))"
  by (simp add: filter_status_keys)

lemma filter_status_rows:
  "(pk, m) \<in> set (filter_status s queryset st) \<Longrightarrow> members st pk = Some m \<and> m_status m = s"
  by (auto simp: filter_status_def List.map_filter_def split: option.splits if_splits)

lemma filter_status_pending:
  "\<forall>(pk, m) \<in> set (filter_status Pending queryset st). m_status m = Pending"
  using filter_status_rows by fastforce

lemma filter_status_key_set:
  "fst ` set (filter_status Pending queryset st) = {pk \<in> set queryset. is_pending st pk}"
proof -
  have "set (map fst (filter_status Pending queryset st))
          = set (filter (is_pending st) (remdups queryset))"
    by (simp only: filter_status_keys)
  then show ?thesis by auto
qed

lemma filter_status_map_of:
  "map_of (filter_status Pending queryset st) pk =
     (if pk \<in> set queryset \<and> is_pending st pk then members st pk else None)"
proof (cases "pk \<in> set queryset \<and> is_pending st pk")
  case True
  then have "pk \<in> fst ` set (filter_status Pending queryset st)"
    by (simp add: filter_status_key_set)
  then obtain m where m: "(pk, m) \<in> set (filter_status Pending queryset st)" by auto
  then have "map_of (filter_status Pending queryset st) pk = Some m"
    using filter_status_distinct by (simp add: map_of_is_SomeI)
  with m True show ?thesis using filter_status_rows by fastforce
next
  case False
  then have "pk \<notin> fst ` set (filter_status Pending queryset st)"
    by (simp add: filter_status_key_set)
  then have "map_of (filter_status Pending queryset st) pk = None"
    by (simp add: map_of_eq_None_iff)
  with False show ?thesis by auto
qed

subsection \<open>The approve loop under a staff account\<close>

lemma approve_loop_staff:
  assumes "u_is_staff user" and "\<forall>(pk, m) \<in> set rows. m_status m = Pending"
    and "distinct (map fst rows)"
  shows "fst (approve_loop user now rows n st) = Inr (n + length rows)
    \<and> members (snd (approve_loop user now rows n st)) =
        (\<lambda>pk. case map_of rows pk of
                None \<Rightarrow> members st pk
              | Some m \<Rightarrow> Some (approved_by_at user now m))
    \<and> (\<exists>es. activity_log (snd (approve_loop user now rows n st)) = activity_log st @ es
          \<and> map a_target_member es = map (Some \<circ> fst) rows
          \<and> (\<forall>e \<in> set es. a_action e = ''approval'' \<and> a_user e = Some (u_pk user)))"
  using assms
proof (induction rows arbitrary: n st)
  case Nil
  then show ?case by simp
next
  case (Cons r rows)
  obtain pk m where r: "r = (pk, m)" by (cases r)
  define st1 where
    "st1 = st\<lparr>members := (members st)(pk \<mapsto> approved_by_at user now m),
              activity_log := activity_log st @ [approval_entry st user now pk],
              pk_seq := Suc (pk_seq st)\<rparr>"
  have step: "approve_membership user now pk m st = (Inr (), st1)"
    using Cons.prems r by (simp add: approve_membership_def st1_def approved_by_at_def)
  have p2: "\<forall>(pk, m) \<in> set rows. m_status m = Pending" using Cons.prems(2) by simp
  have p3: "distinct (map fst rows)" using Cons.prems(3) by simp
  note ih = Cons.IH[OF Cons.prems(1) p2 p3, of "n + 1" st1]
  from ih obtain es where
    es: "activity_log (snd (approve_loop user now rows (n + 1) st1)) = activity_log st1 @ es"
      "map a_target_member es = map (Some \<circ> fst) rows"
      "\<forall>e \<in> set es. a_action e = ''approval'' \<and> a_user e = Some (u_pk user)"
    by blast
  have unfold: "approve_loop user now (r # rows) n st = approve_loop user now rows (n + 1) st1"
    using step r by simp
  have m1: "members st1 = (members st)(pk \<mapsto> approved_by_at user now m)"
    and l1: "activity_log st1 = activity_log st @ [approval_entry st user now pk]"
    by (simp_all add: st1_def)
  have notin: "map_of rows pk = None"
    using Cons.prems(3) r by (simp add: map_of_eq_None_iff)
  have A: "fst (approve_loop user now (r # rows) n st) = Inr (n + length (r # rows))"
    using ih unfold by simp
  have B: "members (snd (approve_loop user now (r # rows) n st)) =
        (\<lambda>pk. case map_of (r # rows) pk of
                None \<Rightarrow> members st pk
              | Some m \<Rightarrow> Some (approved_by_at user now m))"
    using ih unfold m1 notin r by (auto simp: fun_eq_iff split: option.splits)
  have C: "activity_log (snd (approve_loop user now (r # rows) n st))
             = activity_log st @ (approval_entry st user now pk # es)"
    using es(1) unfold l1 by simp
  have D: "map a_target_member (approval_entry st user now pk # es) = map (Some \<circ> fst) (r # rows)"
    using es(2) r by (simp add: approval_entry_def)
  have E: "\<forall>e \<in> set (approval_entry st user now pk # es).
             a_action e = ''approval'' \<and> a_user e = Some (u_pk user)"
    using es(3) by (simp add: approval_entry_def)
  show ?case using A B C D E by blast
qed

text \<open>
  C2. Run by a staff account (the admin site admits no other), the bulk approve
  reports the number of selected profiles that are pending; each of these is stored as
  the single approve leaves it (approved, dated, approved by the acting account); every
  other profile, selected or not, is stored as it was; and the activity log grows by
  one approval entry for each pending selected profile, in order, and by nothing else,
  so no entry targets a skipped profile.
\<close>

theorem approve_members_skip_invalid_count_valid:
  assumes "u_is_staff user"
  shows "fst (approve_members user now queryset st)
           = Inr (length (filter (is_pending st) (remdups queryset)))
    \<and> (\<forall>pk. members (snd (approve_members user now queryset st)) pk =
             (if pk \<in> set queryset \<and> is_pending st pk
              then map_option (approved_by_at user now) (members st pk)
              else members st pk))
    \<and> (\<exists>es. activity_log (snd (approve_members user now queryset st)) = activity_log st @ es
          \<and> map a_target_member es = map Some (filter (is_pending st) (remdups queryset))
          \<and> (\<forall>e \<in> set es. a_action e = ''approval'' \<and> a_user e = Some (u_pk user)))"
proof -
  let ?rows = "filter_status Pending queryset st"
  note L = approve_loop_staff[OF assms filter_status_pending filter_status_distinct,
                               of now queryset st 0 st]
  have count: "length ?rows = length (filter (is_pending st) (remdups queryset))"
    using filter_status_keys[of queryset st] by (metis length_map)
  have keys: "map (Some \<circ> fst) ?rows = map Some (filter (is_pending st) (remdups queryset))"
    using filter_status_keys[of queryset st] by (metis map_map)
  have A: "fst (approve_members user now queryset st)
             = Inr (length (filter (is_pending st) (remdups queryset)))"
    using L count by (simp add: approve_members_def)
  have B: "members (snd (approve_members user now queryset st)) pk =
             (if pk \<in> set queryset \<and> is_pending st pk
              then map_option (approved_by_at user now) (members st pk)
              else members st pk)" for pk
    using L by (auto simp: approve_members_def filter_status_map_of is_pending_def
                     split: option.splits)
  have C: "\<exists>es. activity_log (snd (approve_members user now queryset st)) = activity_log st @ es
          \<and> map a_target_member es = map Some (filter (is_pending st) (remdups queryset))
          \<and> (\<forall>e \<in> set es. a_action e = ''approval'' \<and> a_user e = Some (u_pk user))"
    using L keys by (simp add: approve_members_def)
  show ?thesis using A B C by blast
qed

theorem approve_members_skip_invalid_count_valid_witness:
  "u_is_staff (example_account 7 True)
   \<and> fst (approve_members (example_account 7 True) 5 [1, 2, 3] example_db) = Inr 2
   \<and> members (snd (approve_members (example_account 7 True) 5 [1, 2, 3] example_db)) 1
       = Some (approved_by_at (example_account 7 True) 5 (example_member Pending))
   \<and> members (snd (approve_members (example_account 7 True) 5 [1, 2, 3] example_db)) 2
       = Some (example_member Approved)
   \<and> members (snd (approve_members (example_account 7 True) 5 [1, 2, 3] example_db)) 3
       = Some (approved_by_at (example_account 7 True) 5 (example_member Pending))
   \<and> map a_target_member
         (activity_log (snd (approve_members (example_account 7 True) 5 [1, 2, 3] example_db)))
       = [Some 1, Some 3]"
  using approve_members_skip_invalid_count_valid
          [of "example_account 7 True" 5 "[1, 2, 3]" example_db]
  by (auto simp: example_db_def example_member_def example_account_def is_pending_def)

text \<open>
  C3. On one pending profile the bulk reject sets the status to rejected and reports 1,
  but the activity log stays empty, where the single reject of the same profile
  appends its "rejection" entry: the bulk action is one UPDATE and never runs the
  single operation.
\<close>

theorem reject_members_logs_nothing:
  "reject_members (example_account 7 True) [1] example_db
     = (1, example_db\<lparr>members := (members example_db)(1 \<mapsto> example_member Rejected)\<rparr>)
   \<and> activity_log (snd (reject_members (example_account 7 True) [1] example_db)) = []
   \<and> activity_log (snd (rejectMember (example_account 7 True) 5 1 example_db))
       = [rejection_entry example_db (example_account 7 True) 5 1]"
  by (simp add: reject_members_def Let_def filter_status_def List.map_filter_def example_db_def
        example_member_def example_account_def rejectMember_def reject_membership_def fun_eq_iff)

lemma reject_members_activity_log:
  "activity_log (snd (reject_members user queryset st)) = activity_log st"
  by (simp add: reject_members_def Let_def)




text \<open>
  C6. For a stored profile and an interest of the catalog, after \<open>addInterest\<close> the
  same call again succeeds and leaves the state as it is (no second association, no
  history entry). Over both calls the history grows by exactly one "added" entry when
  the interest was not associated before, and by none when it was; a profile that did
  not have the interest holds it exactly once.
\<close>

theorem addInterest_twice:
  assumes "members st pk = Some m" and "iid \<in> i_pk ` set (catalog st)"
  shows "fst (addInterest pk iid acting now st) = Inr ()
    \<and> addInterest pk iid acting2 now2 (snd (addInterest pk iid acting now st))
        = (Inr (), snd (addInterest pk iid acting now st))
    \<and> (\<exists>m'. members (snd (addInterest pk iid acting now st)) pk = Some m'
          \<and> iid \<in> set (m_interests m')
          \<and> count_list (m_interests m') iid
              = (if iid \<in> set (m_interests m) then count_list (m_interests m) iid else 1))
    \<and> interest_history (snd (addInterest pk iid acting now st))
        = interest_history st
          @ (if iid \<in> set (m_interests m) then [] else [added_entry st pk iid acting now])"
  using assms by (simp add: addInterest_def count_list_0_iff)

theorem addInterest_twice_witness:
  "members example_site_member 1 = Some (example_member Pending)
   \<and> 1 \<in> i_pk ` set (catalog example_site_member)
   \<and> addInterest 1 1 None 6 (snd (addInterest 1 1 None 5 example_site_member))
       = (Inr (), snd (addInterest 1 1 None 5 example_site_member))
   \<and> map_option m_interests (members (snd (addInterest 1 1 None 5 example_site_member)) 1)
       = Some [1]
   \<and> length (interest_history (snd (addInterest 1 1 None 5 example_site_member))) = 1"
  using addInterest_twice [of example_site_member 1 "example_member Pending" 1 None 5 None 6]
  by (simp add: addInterest_def example_site_member_def example_site_def example_member_def)

subsection \<open>The form's errors, field by field\<close>

lemma clean_field_outcome:
  "clean_field fw st d name (cd, errs) =
     (cd(name := outcome_value fw st d name), errs @ outcome_errors fw st d name)"
  by (cases name)
     (auto simp: clean_field_def field_outcome_def outcome_value_def outcome_errors_def
                 clean_email_def clean_password_def split: sum.splits option.splits)

lemma fold_clean_field:
  "fold (clean_field fw st d) fs (cd, errs) =
     ((\<lambda>n. if n \<in> set fs then outcome_value fw st d n else cd n),
      errs @ concat (map (outcome_errors fw st d) fs))"
proof (induction fs arbitrary: cd errs)
  case Nil
  then show ?case by simp
next
  case (Cons f fs)
  show ?case
    by (simp add: clean_field_outcome Cons.IH fun_eq_iff)
qed

lemma all_declared: "n \<in> set declared_fields"
  by (cases n) (simp_all add: declared_fields_def)

lemma clean_fields_eq:
  "clean_fields fw st d =
     (outcome_value fw st d, concat (map (outcome_errors fw st d) declared_fields))"
  by (simp add: clean_fields_def fold_clean_field all_declared)

lemma full_clean_errors:
  "snd (full_clean fw st d) =
     concat (map (outcome_errors fw st d) declared_fields)
     @ (case clean (outcome_value fw st d) of Inl e \<Rightarrow> [(None, e)] | Inr _ \<Rightarrow> [])"
  by (simp add: full_clean_def clean_fields_eq split: sum.splits)

lemma full_clean_values: "fst (full_clean fw st d) = outcome_value fw st d"
  by (auto simp: full_clean_def clean_fields_eq clean_def split: sum.splits if_splits)

lemma field_error_recorded:
  assumes "field_outcome fw st d name = Inl es" and "e \<in> set es"
  shows "(Some name, e) \<in> set (snd (full_clean fw st d))"
proof -
  have "(Some name, e) \<in> set (outcome_errors fw st d name)"
    using assms by (simp add: outcome_errors_def)
  then have "(Some name, e) \<in> set (concat (map (outcome_errors fw st d) declared_fields))"
    using all_declared[of name] by auto
  then show ?thesis by (simp add: full_clean_errors)
qed

lemma field_error_invalid:
  assumes "field_outcome fw st d name = Inl es" and "es \<noteq> []"
  shows "\<not> is_valid fw st d"
proof -
  from assms(2) obtain e where "e \<in> set es" by (cases es) auto
  then have "(Some name, e) \<in> set (snd (full_clean fw st d))"
    using assms(1) field_error_recorded by blast
  then show ?thesis by (auto simp: is_valid_def)
qed

lemma form_error_invalid:
  assumes "clean (outcome_value fw st d) = Inl e"
  shows "\<not> is_valid fw st d"
  using assms by (simp add: is_valid_def full_clean_errors)

lemma register_invalid:
  assumes "\<not> is_valid fw st d"
  shows "snd (registerMember fw now d st) = st"
    and "fst (registerMember fw now d st) =
           Inl (if (Some email, EmailExists) \<in> set (snd (full_clean fw st d))
                then DuplicateEmail else ValidationError)"
proof -
  obtain cd errs where fc: "full_clean fw st d = (cd, errs)" by (cases "full_clean fw st d")
  with assms obtain e es where "errs = e # es" by (cases errs) (auto simp: is_valid_def)
  with fc show "snd (registerMember fw now d st) = st"
    and "fst (registerMember fw now d st) =
           Inl (if (Some email, EmailExists) \<in> set (snd (full_clean fw st d))
                then DuplicateEmail else ValidationError)"
    by (simp_all add: registerMember_def)
qed

lemma CharField_required_value:
  "CharField_clean True ml raw = Inr v
     \<Longrightarrow> v = Str (CharField_to_python raw) \<and> CharField_to_python raw \<noteq> []"
  by (auto simp: CharField_clean_def Let_def split: if_splits)

lemma CharField_errors_nonempty: "CharField_clean required ml raw = Inl es \<Longrightarrow> es \<noteq> []"
  by (auto simp: CharField_clean_def Let_def split: if_splits)

lemmas form_eval =
  is_valid_def full_clean_def clean_fields_eq outcome_errors_def outcome_value_def
  field_outcome_def declared_fields_def CharField_clean_def CharField_to_python_def
  EmailField_clean_def BooleanField_clean_def ModelMultipleChoiceField_clean_def
  ImageField_clean_def clean_email_def clean_password_def clean_def strip_def is_space_def
  Let_def example_fw_def example_site_def example_form_def example_account_def

text \<open>
  C4. When the address the form reads from the input (the email field's own cleaning
  accepts it) is the email of a stored account, \<open>clean_email\<close> records its error, the
  form is invalid, and registration fails with \<open>DuplicateEmail\<close> in the state it
  started from: no account, no profile and no history entry is created.
\<close>

theorem duplicate_email_creates_nothing:
  assumes "EmailField_clean fw (d_email d) = Inr (Str e)" and "e \<in> u_email ` set (users st)"
  shows "\<not> is_valid fw st d
    \<and> (Some email, EmailExists) \<in> set (snd (full_clean fw st d))
    \<and> registerMember fw now d st = (Inl DuplicateEmail, st)
    \<and> users (snd (registerMember fw now d st)) = users st
    \<and> members (snd (registerMember fw now d st)) = members st
    \<and> interest_history (snd (registerMember fw now d st)) = interest_history st"
proof -
  have ex: "list_ex (\<lambda>u. Str (u_email u) = Str e) (users st)"
    using assms(2) by (auto simp: list_ex_iff)
  have o: "field_outcome fw st d email = Inl [EmailExists]"
    using assms(1) ex by (simp add: field_outcome_def clean_email_def)
  have inv: "\<not> is_valid fw st d" using field_error_invalid[OF o] by simp
  have rec: "(Some email, EmailExists) \<in> set (snd (full_clean fw st d))"
    using field_error_recorded[OF o] by simp
  have "registerMember fw now d st = (Inl DuplicateEmail, st)"
    using register_invalid[OF inv, of now] rec by (simp add: prod_eq_iff)
  then show ?thesis using inv rec by simp
qed

theorem duplicate_email_creates_nothing_witness:
  "EmailField_clean example_fw (d_email (example_form\<lparr>d_email := Some ''existing@example.com''\<rparr>))
     = Inr (Str ''existing@example.com'')
   \<and> ''existing@example.com'' \<in> u_email ` set (users example_site)
   \<and> registerMember example_fw 5 (example_form\<lparr>d_email := Some ''existing@example.com''\<rparr>)
        example_site = (Inl DuplicateEmail, example_site)"
  using duplicate_email_creates_nothing
          [of example_fw "example_form\<lparr>d_email := Some ''existing@example.com''\<rparr>"
              "''existing@example.com''" example_site 5]
  by (simp add: EmailField_clean_def CharField_to_python_def strip_def is_space_def
        example_fw_def example_site_def example_form_def example_account_def)

text \<open>
  C7. With no interest selected the form is invalid (the interests field records that
  it is required), and registration fails in the state it started from: validation
  fails before any account, profile or history entry is created.
\<close>

theorem no_interest_fails_validation:
  assumes "d_interests d = []"
  shows "\<not> is_valid fw st d
    \<and> (Some interests, Required) \<in> set (snd (full_clean fw st d))
    \<and> isl (fst (registerMember fw now d st))
    \<and> snd (registerMember fw now d st) = st"
proof -
  have o: "field_outcome fw st d interests = Inl [Required]"
    using assms by (simp add: field_outcome_def ModelMultipleChoiceField_clean_def)
  have inv: "\<not> is_valid fw st d" using field_error_invalid[OF o] by simp
  have rec: "(Some interests, Required) \<in> set (snd (full_clean fw st d))"
    using field_error_recorded[OF o] by simp
  show ?thesis using inv rec register_invalid[OF inv] by simp
qed

theorem no_interest_fails_validation_witness:
  "d_interests (example_form\<lparr>d_interests := []\<rparr>) = []
   \<and> \<not> is_valid example_fw example_site (example_form\<lparr>d_interests := []\<rparr>)
   \<and> registerMember example_fw 5 (example_form\<lparr>d_interests := []\<rparr>) example_site
       = (Inl ValidationError, example_site)"
  using no_interest_fails_validation [of "example_form\<lparr>d_interests := []\<rparr>" example_fw example_site 5]
  by (simp add: registerMember_def form_eval)

text \<open>
  C8. The admin of each log refuses to add and to change an entry, but not to delete
  one: \<open>has_delete_permission\<close> is not overridden, so a staff superuser's confirmed
  delete view removes the entry of the interest history, and likewise that of the
  activity log, while the change view of the same user is denied.
\<close>

theorem log_entry_deleted_in_admin:
  "InterestHistoryAdmin_change_view example_superuser 4 (hd (interest_history example_logs))
       example_logs = (Inl PermissionDenied, example_logs)
   \<and> fst (InterestHistoryAdmin_delete_view ''crm'' example_superuser 4 example_logs) = Inr ()
   \<and> length (interest_history example_logs) = 1
   \<and> interest_history (snd (InterestHistoryAdmin_delete_view ''crm'' example_superuser 4
                              example_logs)) = []
   \<and> fst (ActivityLogAdmin_delete_view ''crm'' example_superuser 7 example_logs) = Inr ()
   \<and> length (activity_log example_logs) = 1
   \<and> activity_log (snd (ActivityLogAdmin_delete_view ''crm'' example_superuser 7
                          example_logs)) = []"
  by (simp add: InterestHistoryAdmin_change_view_def InterestHistoryAdmin_delete_view_def
        ActivityLogAdmin_delete_view_def AdminSite_has_permission_def
        InterestHistoryAdmin_has_change_permission_def ModelAdmin_has_delete_permission_def
        has_perm_def example_superuser_def example_account_def example_logs_def
        example_site_def Let_def)

text \<open>
  C9, as amended. A submitted password that is not empty once its surrounding white
  space is stripped, and that holds no null character, is accepted by the password
  field; \<open>clean_password\<close> returns whatever cleaned value it finds unchanged, here
  the stripped password; that is the password of the cleaned data, and no error is
  recorded for the field, whatever its length and characters. A password whose first and last
  characters are not white space is returned as submitted.
\<close>

theorem password_accepted_as_cleaned:
  assumes "d_password d = Some p" and "strip p \<noteq> []" and "CHR 0x00 \<notin> set (strip p)"
  shows "field_clean fw st d password = Inr (Str (strip p))
    \<and> (\<forall>cd v. cd password = Some v \<longrightarrow> clean_password cd = Inr v)
    \<and> fst (full_clean fw st d) password = Some (Str (strip p))
    \<and> (\<forall>e. (Some password, e) \<notin> set (snd (full_clean fw st d)))
    \<and> (\<not> is_space (hd p) \<and> \<not> is_space (last p) \<longrightarrow> strip p = p)"
proof -
  have fc: "field_clean fw st d password = Inr (Str (strip p))"
    using assms by (simp add: CharField_clean_def CharField_to_python_def)
  have cp: "\<forall>cd v. cd password = Some v \<longrightarrow> clean_password cd = Inr v"
    by (simp add: clean_password_def)
  have o: "field_outcome fw st d password = Inr (Str (strip p))"
    using fc by (simp add: field_outcome_def clean_password_def)
  have v: "fst (full_clean fw st d) password = Some (Str (strip p))"
    using o by (simp add: full_clean_values outcome_value_def)
  have none: "(Some password, e) \<notin> set (snd (full_clean fw st d))" for e
  proof
    assume "(Some password, e) \<in> set (snd (full_clean fw st d))"
    then have "(Some password, e)
                 \<in> set (concat (map (outcome_errors fw st d) declared_fields))"
      by (auto simp: full_clean_errors split: sum.splits)
    then obtain n where "(Some password, e) \<in> set (outcome_errors fw st d n)" by auto
    then have "(Some password, e) \<in> set (outcome_errors fw st d password)"
      by (auto simp: outcome_errors_def split: sum.splits)
    then show False using o by (simp add: outcome_errors_def)
  qed
  have s: "strip p = p" if "\<not> is_space (hd p)" and "\<not> is_space (last p)"
  proof -
    have ne: "p \<noteq> []" using assms(2) by (auto simp: strip_def)
    have "dropWhile is_space p = p" using ne that(1) by (cases p) auto
    moreover have "dropWhile is_space (rev p) = rev p"
      using ne that(2) by (cases "rev p") (auto simp: hd_rev[symmetric])
    ultimately show ?thesis by (simp add: strip_def)
  qed
  show ?thesis using fc cp v none s by blast
qed

theorem password_accepted_as_cleaned_witness:
  "d_password example_form = Some ''strongpassword123''
   \<and> strip ''strongpassword123'' \<noteq> []
   \<and> CHR 0x00 \<notin> set (strip ''strongpassword123'')
   \<and> field_clean example_fw example_site example_form password
       = Inr (Str ''strongpassword123'')
   \<and> fst (full_clean example_fw example_site example_form) password
       = Some (Str ''strongpassword123'')"
proof -
  have s: "strip ''strongpassword123'' = ''strongpassword123''"
    by (simp add: strip_def is_space_def)
  show ?thesis
    using password_accepted_as_cleaned
            [of example_form "''strongpassword123''" example_fw example_site]
    by (simp add: s example_form_def)
qed

text \<open>
  C9 as stated fails: the empty password is a password string, and the required
  password field rejects it, so the form is invalid and the registration is rejected.
\<close>

theorem empty_password_rejected:
  "field_clean example_fw example_site
       (example_form\<lparr>d_password := Some [], d_password_confirm := Some []\<rparr>) password
     = Inl [Required]
   \<and> \<not> is_valid example_fw example_site
         (example_form\<lparr>d_password := Some [], d_password_confirm := Some []\<rparr>)"
  by (simp add: form_eval)

text \<open>
  C10, as amended. The form is valid only if the terms are accepted and the two
  password fields are equal as the fields read them (surrounding white space
  stripped, a missing value empty): when the terms are not accepted, or the two
  passwords so read differ, validation fails and registration leaves the state as
  it was, creating nothing.
\<close>

theorem valid_needs_terms_and_matching_passwords:
  assumes "\<not> d_terms_accepted d
           \<or> CharField_to_python (d_password d) \<noteq> CharField_to_python (d_password_confirm d)"
  shows "\<not> is_valid fw st d
    \<and> isl (fst (registerMember fw now d st))
    \<and> snd (registerMember fw now d st) = st"
proof -
  have inv: "\<not> is_valid fw st d"
  proof (cases "d_terms_accepted d")
    case False
    then have "field_outcome fw st d terms_accepted = Inl [Required]"
      by (simp add: field_outcome_def BooleanField_clean_def)
    then show ?thesis using field_error_invalid by blast
  next
    case True
    with assms have diff:
      "CharField_to_python (d_password d) \<noteq> CharField_to_python (d_password_confirm d)"
      by simp
    show ?thesis
    proof (cases "CharField_clean True None (d_password d)")
      case (Inl es)
      then have "field_outcome fw st d password = Inl es" by (simp add: field_outcome_def)
      then show ?thesis using field_error_invalid CharField_errors_nonempty[OF Inl] by blast
    next
      case p: (Inr v)
      show ?thesis
      proof (cases "CharField_clean True None (d_password_confirm d)")
        case (Inl es)
        then have "field_outcome fw st d password_confirm = Inl es"
          by (simp add: field_outcome_def)
        then show ?thesis using field_error_invalid CharField_errors_nonempty[OF Inl] by blast
      next
        case c: (Inr w)
        have vp: "outcome_value fw st d password
                    = Some (Str (CharField_to_python (d_password d)))"
          using p CharField_required_value[OF p]
          by (simp add: outcome_value_def field_outcome_def clean_password_def)
        have vc: "outcome_value fw st d password_confirm
                    = Some (Str (CharField_to_python (d_password_confirm d)))"
          using c CharField_required_value[OF c]
          by (simp add: outcome_value_def field_outcome_def)
        have "clean (outcome_value fw st d) = Inl PasswordMismatch"
          using vp vc diff CharField_required_value[OF p] CharField_required_value[OF c]
          by (simp add: clean_def)
        then show ?thesis using form_error_invalid by blast
      qed
    qed
  qed
  show ?thesis using inv register_invalid[OF inv] by simp
qed

theorem valid_needs_terms_and_matching_passwords_witness:
  "CharField_to_python (Some ''password123'') \<noteq> CharField_to_python (Some ''different123'')
   \<and> \<not> is_valid example_fw example_site
         (example_form\<lparr>d_password := Some ''password123'',
                       d_password_confirm := Some ''different123''\<rparr>)
   \<and> snd (registerMember example_fw 5
              (example_form\<lparr>d_password := Some ''password123'',
                            d_password_confirm := Some ''different123''\<rparr>) example_site)
       = example_site"
  using valid_needs_terms_and_matching_passwords
          [of "example_form\<lparr>d_password := Some ''password123'',
                             d_password_confirm := Some ''different123''\<rparr>"
              example_fw example_site 5]
  by (simp add: CharField_to_python_def strip_def is_space_def example_form_def)

text \<open>
  C10 as stated fails: the two submitted passwords below are both present and differ
  (the confirmation ends in a space), yet the form is valid and registration creates
  the account and the profile.
\<close>

theorem differing_passwords_accepted:
  "d_password (example_form\<lparr>d_password_confirm := Some ''strongpassword123 ''\<rparr>)
     = Some ''strongpassword123''
   \<and> d_password_confirm (example_form\<lparr>d_password_confirm := Some ''strongpassword123 ''\<rparr>)
     = Some ''strongpassword123 ''
   \<and> ''strongpassword123'' \<noteq> ''strongpassword123 ''
   \<and> d_terms_accepted (example_form\<lparr>d_password_confirm := Some ''strongpassword123 ''\<rparr>)
   \<and> is_valid example_fw example_site
        (example_form\<lparr>d_password_confirm := Some ''strongpassword123 ''\<rparr>)
   \<and> fst (registerMember example_fw 5
             (example_form\<lparr>d_password_confirm := Some ''strongpassword123 ''\<rparr>) example_site)
     = Inr 3
   \<and> length (users (snd (registerMember example_fw 5
             (example_form\<lparr>d_password_confirm := Some ''strongpassword123 ''\<rparr>) example_site)))
     = Suc (length (users example_site))"
  by (simp add: registerMember_def form_eval addInterest_def rows_of_def str_of_def file_of_def)

end
